theory Spec2Isabelle
  imports Complex_Main "HOL-Library.Word"
begin

section \<open>CTkSafeEditBox: the hover-colour utility and the edit toggle\<close>

text \<open>
  The development follows \<^verbatim>\<open>src/CTkSafeEditBox.py\<close>. Python strings are modelled as
  \<^typ>\<open>string\<close>; a \<^typ>\<open>char\<close> stands for a code point below 256, which covers every
  ASCII colour name and colour code. The host toolkit (the theme table of customtkinter and
  Tk's \<^verbatim>\<open>winfo_rgb\<close>) is a parameter of the model.
\<close>

subsection \<open>Python built-ins used by the source\<close>

text \<open>
  The exceptions of the model: the \<^verbatim>\<open>ValueError\<close> of the colour utility, with its message,
  and the \<^verbatim>\<open>TypeError\<close> of comparing a length with \<^verbatim>\<open>None\<close>.
\<close>

datatype error = ValueError string | TypeError

text \<open>\<^verbatim>\<open>s.startswith("#")\<close>\<close>

definition startswith_hash :: "string \<Rightarrow> bool" where
  "startswith_hash s = (case s of [] \<Rightarrow> False | c # _ \<Rightarrow> c = CHR ''#'')"

text \<open>
  \<^verbatim>\<open>s[i:j]\<close> for constant indices \<open>0 \<le> i \<le> j\<close>: out-of-range bounds are clipped, never
  an error.
\<close>

definition py_slice :: "nat \<Rightarrow> nat \<Rightarrow> 'a list \<Rightarrow> 'a list" where
  "py_slice i j s = take (j - i) (drop i s)"

text \<open>
  \<^verbatim>\<open>s[:m]\<close> for an arbitrary integer \<open>m\<close>: a negative \<open>m\<close> counts from the end.
\<close>

definition py_slice_to :: "int \<Rightarrow> 'a list \<Rightarrow> 'a list" where
  "py_slice_to m s = (if 0 \<le> m then take (nat m) s else take (nat (int (length s) + m)) s)"

text \<open>
  \<^verbatim>\<open>int(s, 16)\<close>. Python strips white space on both sides, accepts one sign, an optional
  \<^verbatim>\<open>0x\<close>/\<^verbatim>\<open>0X\<close> prefix (which one underscore may follow) and then hexadecimal digits, in
  either case, with single underscores between digits. Anything else raises
  \<^verbatim>\<open>ValueError\<close>, which is \<open>None\<close> here. Below code point 256 the decimal digits are
  \<^verbatim>\<open>0\<close> to \<^verbatim>\<open>9\<close> and the white space is TAB, LF, VT, FF, CR, SPACE, NEL (0x85) and
  NBSP (0xA0).
\<close>

definition hex_digit_val :: "char \<Rightarrow> nat option" where
  "hex_digit_val c =
     (let n = (of_char c :: nat) in
      if 48 \<le> n \<and> n \<le> 57 then Some (n - 48)
      else if 97 \<le> n \<and> n \<le> 102 then Some (n - 87)
      else if 65 \<le> n \<and> n \<le> 70 then Some (n - 55)
      else None)"

definition py_isspace :: "char \<Rightarrow> bool" where
  "py_isspace c =
     (let n = (of_char c :: nat) in (9 \<le> n \<and> n \<le> 13) \<or> n = 32 \<or> n = 133 \<or> n = 160)"

definition py_strip :: "string \<Rightarrow> string" where
  "py_strip s = rev (dropWhile py_isspace (rev (dropWhile py_isspace s)))"

text \<open>The digits after the first one: each is a digit, or an underscore and a digit.\<close>

fun parse_digits :: "nat \<Rightarrow> string \<Rightarrow> nat option" where
  "parse_digits acc [] = Some acc"
| "parse_digits acc [c] =
     (case hex_digit_val c of None \<Rightarrow> None | Some v \<Rightarrow> Some (16 * acc + v))"
| "parse_digits acc (c # d # ds) =
     (if c = CHR ''_'' then
        (case hex_digit_val d of None \<Rightarrow> None | Some v \<Rightarrow> parse_digits (16 * acc + v) ds)
      else
        (case hex_digit_val c of None \<Rightarrow> None | Some v \<Rightarrow> parse_digits (16 * acc + v) (d # ds)))"

definition parse_sign :: "string \<Rightarrow> int \<times> string" where
  "parse_sign s =
     (case s of
        [] \<Rightarrow> (1, [])
      | c # r \<Rightarrow> if c = CHR ''+'' then (1, r) else if c = CHR ''-'' then (- 1, r) else (1, s))"

definition skip_hex_prefix :: "string \<Rightarrow> string" where
  "skip_hex_prefix s =
     (case s of
        c # x # r \<Rightarrow>
          if c = CHR ''0'' \<and> (x = CHR ''x'' \<or> x = CHR ''X'') then
            (case r of u # r' \<Rightarrow> if u = CHR ''_'' then r' else r | [] \<Rightarrow> r)
          else s
      | _ \<Rightarrow> s)"

definition parse_magnitude :: "string \<Rightarrow> nat option" where
  "parse_magnitude s =
     (case s of
        [] \<Rightarrow> None
      | c # cs \<Rightarrow> (case hex_digit_val c of None \<Rightarrow> None | Some v \<Rightarrow> parse_digits v cs))"

definition py_int16 :: "string \<Rightarrow> int option" where
  "py_int16 s =
     (let (sgn, r) = parse_sign (py_strip s) in
      case parse_magnitude (skip_hex_prefix r) of
        None \<Rightarrow> None
      | Some n \<Rightarrow> Some (sgn * int n))"

text \<open>
  \<^verbatim>\<open>"{:02x}".format(n)\<close>: lowercase hexadecimal, a minus sign for a negative number,
  padded with zeros to two characters.
\<close>

definition hex_char :: "nat \<Rightarrow> char" where
  "hex_char d = ''0123456789abcdef'' ! d"

fun hex_digits :: "nat \<Rightarrow> string" where
  "hex_digits n = (if n < 16 then [hex_char n] else hex_digits (n div 16) @ [hex_char (n mod 16)])"

declare hex_digits.simps [simp del]

definition format_02x :: "int \<Rightarrow> string" where
  "format_02x n =
     (if n < 0 then CHR ''-'' # hex_digits (nat (- n))
      else if n < 16 then CHR ''0'' # hex_digits (nat n)
      else hex_digits (nat n))"

text \<open>
  \<^verbatim>\<open>int(x * 0.85)\<close> for an integer \<open>x\<close>: the product is a double, and \<^verbatim>\<open>int\<close> truncates
  it towards zero. For \<open>\<bar>x\<bar> \<le> 65536\<close> the double product truncates to the same integer as
  the exact product \<open>85 * x / 100\<close> (the exact product is either an integer, to which the
  double rounds, or at least \<open>1 / 20\<close> away from one); the channels of this program lie
  between \<open>- 15\<close> and \<open>255\<close>.
\<close>

definition int_times_factor :: "int \<Rightarrow> int" where
  "int_times_factor x = (if 0 \<le> x then (x * 85) div 100 else - ((- x * 85) div 100))"

subsection \<open>The host toolkit\<close>

text \<open>
  A value of the theme, which customtkinter loads from JSON: a string, a list, or anything
  else (a number, a dictionary, \<^verbatim>\<open>null\<close>).
\<close>

datatype json = JStr string | JList "json list" | JOther

text \<open>
  \<open>theme_fg_color k\<close> is the value of
  \<^verbatim>\<open>ctk.ThemeManager.theme["CTkButton"]["fg_color"][k]\<close>, and \<open>None\<close> when one of the
  subscripts raises. \<open>winfo_rgb\<close> is \<^verbatim>\<open>self.master.winfo_rgb\<close>: Tk answers with three
  16-bit intensities, or raises (\<open>None\<close>) for a colour it does not know.
\<close>

record host =
  theme_fg_color :: "string \<Rightarrow> json option"
  winfo_rgb :: "string \<Rightarrow> (16 word \<times> 16 word \<times> 16 word) option"

subsection \<open>The hover colour\<close>

text \<open>
  Lines 111 to 119, the \<^verbatim>\<open>try\<close> block: \<open>None\<close> when anything in it raises, and then
  the colour code is the argument itself.
\<close>

definition theme_try :: "host \<Rightarrow> string \<Rightarrow> string option" where
  "theme_try h color_name_or_code =
     (case theme_fg_color h color_name_or_code of
        None \<Rightarrow> None
      | Some v \<Rightarrow>
          (case (case v of JList [] \<Rightarrow> None | JList (x # _) \<Rightarrow> Some x | _ \<Rightarrow> Some v) of
             None \<Rightarrow> None
           | Some (JStr s) \<Rightarrow> if startswith_hash s then Some s else None
           | Some _ \<Rightarrow> None))"

definition theme_color_code :: "host \<Rightarrow> string \<Rightarrow> string" where
  "theme_color_code h color_name_or_code =
     (case theme_try h color_name_or_code of None \<Rightarrow> color_name_or_code | Some c \<Rightarrow> c)"

text \<open>Lines 122 to 136: the three channels of the colour code, before darkening.\<close>

definition resolve_rgb :: "host \<Rightarrow> string \<Rightarrow> error + (int \<times> int \<times> int)" where
  "resolve_rgb h color_code =
     (if \<not> startswith_hash color_code then
        (case winfo_rgb h color_code of
           None \<Rightarrow>
             Inl (ValueError (''Unknown or invalid color name: '' @ [CHR 0x27] @ color_code @ [CHR 0x27]))
         | Some (r, g, b) \<Rightarrow>
             Inr (int (unat r div 256), int (unat g div 256), int (unat b div 256)))
      else if length color_code \<noteq> 7 then
        Inl (ValueError (''Color code must be in format '' @ [CHR 0x27] @ ''#RRGGBB'' @ [CHR 0x27] @ ''.''))
      else
        (case py_int16 (py_slice 1 3 color_code) of
           None \<Rightarrow> Inl (ValueError ''Invalid hex values in color code.'')
         | Some r \<Rightarrow>
             (case py_int16 (py_slice 3 5 color_code) of
                None \<Rightarrow> Inl (ValueError ''Invalid hex values in color code.'')
              | Some g \<Rightarrow>
                  (case py_int16 (py_slice 5 7 color_code) of
                     None \<Rightarrow> Inl (ValueError ''Invalid hex values in color code.'')
                   | Some b \<Rightarrow> Inr (r, g, b)))))"

text \<open>Lines 139 to 142, for one channel.\<close>

definition darken :: "int \<Rightarrow> int" where
  "darken c = max 0 (int_times_factor c)"

text \<open>
  The method \<^verbatim>\<open>_get_hover_color\<close>. It is given \<open>self\<close> and hands it back; the result is
  the returned string or the exception raised.
\<close>

definition get_hover_color :: "host \<Rightarrow> 'w \<Rightarrow> string \<Rightarrow> (error + string) \<times> 'w" where
  "get_hover_color h self color_name_or_code =
     (let color_code = theme_color_code h color_name_or_code in
      case resolve_rgb h color_code of
        Inl e \<Rightarrow> (Inl e, self)
      | Inr (r, g, b) \<Rightarrow>
          (Inr (CHR ''#'' # format_02x (darken r) @ format_02x (darken g) @ format_02x (darken b)),
           self))"

subsection \<open>The widget\<close>

text \<open>
  The attributes that \<^verbatim>\<open>__init__\<close> assigns before it creates the two child widgets
  (lines 36 to 54). A callback is an opaque value of type \<open>'cb\<close>; \<open>None\<close> is Python's
  \<^verbatim>\<open>None\<close>. \<open>max_characters\<close> is \<open>Some m\<close> for an \<^verbatim>\<open>int\<close> and \<open>None\<close> otherwise.
  \<open>entry_var\<close> is the value of the \<^verbatim>\<open>StringVar\<close>, and \<open>entry_var_traced\<close> tells whether
  \<^verbatim>\<open>_limit_characters\<close> was registered as its write trace.
\<close>

record 'cb attrs =
  can_edit :: bool
  edit_disabled_text :: string
  edit_enabled_text :: string
  edit_disabled_color :: string
  edit_enabled_color :: string
  on_disable_edit_command :: "'cb option"
  on_enable_edit_command :: "'cb option"
  max_characters :: "int option"
  entry_var :: string
  entry_var_traced :: bool
  widget_height :: nat

text \<open>
  The child widgets hold the options that the source sets: the state of the entry, and the
  colours and the label of the button. Layout is not modelled. What the source asks of the
  toolkit beyond setting options (the focus, the selection) and each call of a callback is
  appended to \<open>effects\<close>, in order; a callback is taken to return without touching the
  widget.
\<close>

datatype entry_state = Normal | Disabled

record button =
  fg_color :: string
  hover_color :: string
  button_text :: string

datatype tk_index = Index int | End_index

datatype 'cb effect = Entry_focus_set | Entry_select_range tk_index tk_index | Command 'cb

record 'cb widget = "'cb attrs" +
  Entry_state :: entry_state
  EditButton :: button
  effects :: "'cb effect list"

text \<open>
  \<^verbatim>\<open>__init__\<close>. The hover colour of the button is computed from the disabled colour while
  the button is being created, so a \<^verbatim>\<open>ValueError\<close> there leaves no widget.
\<close>

definition init ::
  "host \<Rightarrow> string \<Rightarrow> string \<Rightarrow> string \<Rightarrow> string \<Rightarrow> int option \<Rightarrow> 'cb option \<Rightarrow> 'cb option
     \<Rightarrow> error + 'cb widget" where
  "init h disabled_text enabled_text disabled_color enabled_color maxc on_disable on_enable =
     (let self0 = \<lparr>can_edit = False,
                   edit_disabled_text = disabled_text,
                   edit_enabled_text = enabled_text,
                   edit_disabled_color = disabled_color,
                   edit_enabled_color = enabled_color,
                   on_disable_edit_command = on_disable,
                   on_enable_edit_command = on_enable,
                   max_characters = maxc,
                   entry_var = [],
                   entry_var_traced = (maxc \<noteq> None),
                   widget_height = 28\<rparr>;
          (hc, self1) = get_hover_color h self0 (edit_disabled_color self0)
      in case hc of
           Inl e \<Rightarrow> Inl e
         | Inr c \<Rightarrow>
             Inr \<lparr>can_edit = can_edit self1,
                  edit_disabled_text = edit_disabled_text self1,
                  edit_enabled_text = edit_enabled_text self1,
                  edit_disabled_color = edit_disabled_color self1,
                  edit_enabled_color = edit_enabled_color self1,
                  on_disable_edit_command = on_disable_edit_command self1,
                  on_enable_edit_command = on_enable_edit_command self1,
                  max_characters = max_characters self1,
                  entry_var = entry_var self1,
                  entry_var_traced = entry_var_traced self1,
                  widget_height = widget_height self1,
                  Entry_state = Disabled,
                  EditButton = \<lparr>fg_color = edit_disabled_color self1,
                                hover_color = c,
                                button_text = edit_disabled_text self1\<rparr>,
                  effects = []\<rparr>)"

text \<open>
  \<^verbatim>\<open>toggle_edit_mode\<close>. The first component is the exception that escapes, if any; the
  assignments made before it was raised stay.
\<close>

definition toggle_edit_mode :: "host \<Rightarrow> 'cb widget \<Rightarrow> error option \<times> 'cb widget" where
  "toggle_edit_mode h self0 =
     (let self1 = self0\<lparr>can_edit := \<not> can_edit self0\<rparr> in
      if can_edit self1 then
        (let self2 = self1\<lparr>Entry_state := Normal\<rparr>;
             (hc, self3) = get_hover_color h self2 (edit_enabled_color self2)
         in case hc of
              Inl e \<Rightarrow> (Some e, self3)
            | Inr c \<Rightarrow>
                (let self4 = self3\<lparr>EditButton := (EditButton self3)
                                \<lparr>fg_color := edit_enabled_color self3,
                                 hover_color := c,
                                 button_text := edit_enabled_text self3\<rparr>\<rparr>;
                     self5 = self4\<lparr>effects := effects self4 @
                                [Entry_focus_set, Entry_select_range (Index 0) End_index]\<rparr>
                 in case on_enable_edit_command self5 of
                      None \<Rightarrow> (None, self5)
                    | Some f \<Rightarrow> (None, self5\<lparr>effects := effects self5 @ [Command f]\<rparr>)))
      else
        (let self2 = self1\<lparr>Entry_state := Disabled\<rparr>;
             (hc, self3) = get_hover_color h self2 (edit_disabled_color self2)
         in case hc of
              Inl e \<Rightarrow> (Some e, self3)
            | Inr c \<Rightarrow>
                (let self4 = self3\<lparr>EditButton := (EditButton self3)
                                \<lparr>fg_color := edit_disabled_color self3,
                                 hover_color := c,
                                 button_text := edit_disabled_text self3\<rparr>\<rparr>
                 in case on_disable_edit_command self4 of
                      None \<Rightarrow> (None, self4)
                    | Some f \<Rightarrow> (None, self4\<lparr>effects := effects self4 @ [Command f]\<rparr>))))"

text \<open>
  \<^verbatim>\<open>_limit_characters\<close>. Comparing with \<^verbatim>\<open>None\<close> raises a \<^verbatim>\<open>TypeError\<close>; the trace is
  registered only when \<open>max_characters\<close> is an \<^verbatim>\<open>int\<close>.
\<close>

definition limit_characters :: "'cb widget \<Rightarrow> error + 'cb widget" where
  "limit_characters self =
     (case max_characters self of
        None \<Rightarrow> Inl TypeError
      | Some m \<Rightarrow>
          if m \<le> int (length (entry_var self))
          then Inr (self\<lparr>entry_var := py_slice_to m (entry_var self)\<rparr>)
          else Inr self)"

text \<open>
  A write to the \<^verbatim>\<open>StringVar\<close> (a keystroke in the entry, or \<^verbatim>\<open>set\<close>), followed by its
  write trace. Tcl disables the traces of a variable while one of them runs, so the
  \<^verbatim>\<open>set\<close> inside \<^verbatim>\<open>_limit_characters\<close> does not call it again; an exception in a trace is
  reported by Tk and the value written stays.
\<close>

definition entry_var_set :: "string \<Rightarrow> 'cb widget \<Rightarrow> 'cb widget" where
  "entry_var_set s self =
     (let self1 = self\<lparr>entry_var := s\<rparr> in
      if entry_var_traced self1 then
        (case limit_characters self1 of Inl _ \<Rightarrow> self1 | Inr self2 \<Rightarrow> self2)
      else self1)"

text \<open>
  What can happen to a widget after its construction: the button is pressed (or
  \<^verbatim>\<open>toggle_edit_mode\<close> is called), or the text is written. \<open>run\<close> performs a sequence
  of such actions; a toggle that raises leaves the state it reached.
\<close>

datatype action = Toggle | Write string

fun step :: "host \<Rightarrow> 'cb widget \<Rightarrow> action \<Rightarrow> 'cb widget" where
  "step h w Toggle = snd (toggle_edit_mode h w)"
| "step h w (Write s) = entry_var_set s w"

fun run :: "host \<Rightarrow> 'cb widget \<Rightarrow> action list \<Rightarrow> 'cb widget" where
  "run h w [] = w"
| "run h w (a # as) = run h (step h w a) as"

text \<open>The two states of the specification.\<close>

definition is_DISABLED :: "'cb widget \<Rightarrow> bool" where
  "is_DISABLED w \<longleftrightarrow>
     \<not> can_edit w \<and> Entry_state w = Disabled \<and>
     fg_color (EditButton w) = edit_disabled_color w \<and>
     button_text (EditButton w) = edit_disabled_text w"

definition is_ENABLED :: "'cb widget \<Rightarrow> bool" where
  "is_ENABLED w \<longleftrightarrow>
     can_edit w \<and> Entry_state w = Normal \<and>
     fg_color (EditButton w) = edit_enabled_color w \<and>
     button_text (EditButton w) = edit_enabled_text w"

text \<open>
  A host for the examples: no theme entry is a colour table, and Tk knows \<^verbatim>\<open>red\<close> and
  \<^verbatim>\<open>green\<close>.
\<close>

definition demo_host :: host where
  "demo_host =
     \<lparr>theme_fg_color = (\<lambda>k. None),
      winfo_rgb = (\<lambda>s. if s = ''red'' then Some (65535, 0, 0)
                        else if s = ''green'' then Some (0, 32896, 0)
                        else None)\<rparr>"

text \<open>A second host, which agrees with the first on \<^verbatim>\<open>red\<close> only.\<close>

definition other_host :: host where
  "other_host =
     \<lparr>theme_fg_color =
        (\<lambda>k. if k = ''blue'' then Some (JList [JStr ''#3B8ED0'', JStr ''#1F6AA5'']) else None),
      winfo_rgb = (\<lambda>s. if s = ''red'' then Some (65535, 0, 0) else Some (0, 0, 0))\<rparr>"

text \<open>
  The widget that \<^verbatim>\<open>CTkSafeEditBox(app, max_characters=8, ...)\<close> builds on the example
  host with the default labels, the disabled colour \<^verbatim>\<open>red\<close>, the given enabled colour and
  two callbacks, and the state of the one with the enabled colour \<^verbatim>\<open>green\<close> after the
  first toggle.
\<close>

definition demo_widget :: "string \<Rightarrow> unit widget" where
  "demo_widget enabled_color =
     \<lparr>can_edit = False, edit_disabled_text = ''A'', edit_enabled_text = ''M'',
      edit_disabled_color = ''red'', edit_enabled_color = enabled_color,
      on_disable_edit_command = Some (), on_enable_edit_command = Some (),
      max_characters = Some 8, entry_var = [], entry_var_traced = True,
      widget_height = 28, Entry_state = Disabled,
      EditButton = \<lparr>fg_color = ''red'', hover_color = ''#d80000'', button_text = ''A''\<rparr>,
      effects = []\<rparr>"

definition demo_enabled :: "unit widget" where
  "demo_enabled =
     \<lparr>can_edit = True, edit_disabled_text = ''A'', edit_enabled_text = ''M'',
      edit_disabled_color = ''red'', edit_enabled_color = ''green'',
      on_disable_edit_command = Some (), on_enable_edit_command = Some (),
      max_characters = Some 8, entry_var = [], entry_var_traced = True,
      widget_height = 28, Entry_state = Normal,
      EditButton = \<lparr>fg_color = ''green'', hover_color = ''#006c00'', button_text = ''M''\<rparr>,
      effects = [Entry_focus_set, Entry_select_range (Index 0) End_index, Command ()]\<rparr>"

subsection \<open>Invariants\<close>

text \<open>The options of the button in each of the two states, for a given hover colour.\<close>

definition disabled_look :: "'cb widget \<Rightarrow> string \<Rightarrow> button" where
  "disabled_look w c =
     \<lparr>fg_color = edit_disabled_color w, hover_color = c, button_text = edit_disabled_text w\<rparr>"

definition enabled_look :: "'cb widget \<Rightarrow> string \<Rightarrow> button" where
  "enabled_look w c =
     \<lparr>fg_color = edit_enabled_color w, hover_color = c, button_text = edit_enabled_text w\<rparr>"

text \<open>
  What holds of every widget after construction: the disabled colour has a hover colour,
  the entry is writable exactly when \<open>can_edit\<close> is set, and the button shows the enabled
  look when \<open>can_edit\<close> is set and the enabled colour has a hover colour, and the disabled
  look otherwise.
\<close>

definition coherent :: "host \<Rightarrow> 'cb widget \<Rightarrow> bool" where
  "coherent h w \<longleftrightarrow>
     (\<exists>cd. fst (get_hover_color h () (edit_disabled_color w)) = Inr cd \<and>
        Entry_state w = (if can_edit w then Normal else Disabled) \<and>
        EditButton w =
          (if can_edit w then
             (case fst (get_hover_color h () (edit_enabled_color w)) of
                Inr ce \<Rightarrow> enabled_look w ce
              | Inl _ \<Rightarrow> disabled_look w cd)
           else disabled_look w cd))"

text \<open>The write trace is registered for the maximum \<open>m\<close>, and the text respects it.\<close>

definition limited :: "int \<Rightarrow> 'cb widget \<Rightarrow> bool" where
  "limited m w \<longleftrightarrow>
     max_characters w = Some m \<and> entry_var_traced w \<and> int (length (entry_var w)) \<le> m"

subsection \<open>The specification's words\<close>

text \<open>A channel between 0 and 255 written as two lowercase hexadecimal digits.\<close>

definition two_hex :: "int \<Rightarrow> string" where
  "two_hex n = [hex_char (nat n div 16), hex_char (nat n mod 16)]"



section \<open>Properties of the hover colour\<close>

lemma get_hover_color_self: "get_hover_color h self s = (fst (get_hover_color h () s), self)"
  by (simp add: get_hover_color_def Let_def split: sum.splits prod.splits)

lemma hex_digit_val_lt: "hex_digit_val c = Some v \<Longrightarrow> v < 16"
  by (auto simp: hex_digit_val_def Let_def split: if_splits)




lemma py_int16_two_chars:
  "py_int16 [a, b] = Some v \<Longrightarrow> - 15 \<le> v \<and> v \<le> 255"
  by (auto simp: py_int16_def py_strip_def parse_sign_def skip_hex_prefix_def parse_magnitude_def
      split: if_splits option.splits dest!: hex_digit_val_lt)

lemma format_02x_two_hex: "0 \<le> n \<Longrightarrow> n < 256 \<Longrightarrow> format_02x n = two_hex n"
proof -
  assume n: "0 \<le> n" "n < 256"
  have z: "hex_char 0 = CHR ''0''" by (simp add: hex_char_def)
  show ?thesis
  proof (cases "n < 16")
    case True
    with n have "nat n div 16 = 0" "nat n mod 16 = nat n" "nat n < 16" by auto
    with True n show ?thesis by (simp add: format_02x_def two_hex_def hex_digits.simps z)
  next
    case False
    with n have a: "\<not> nat n < 16" and b: "nat n div 16 < 16" by auto
    from False n a b show ?thesis
      by (simp add: format_02x_def two_hex_def hex_digits.simps [of "nat n"] hex_digits.simps [of "nat n div 16"])
  qed
qed


lemma darken_bounds: "- 15 \<le> c \<Longrightarrow> c \<le> 255 \<Longrightarrow> 0 \<le> darken c \<and> darken c \<le> 216 \<and> (0 \<le> c \<longrightarrow> darken c \<le> c)"
  by (auto simp: darken_def int_times_factor_def)

lemma hex_char_lower: "d < 16 \<Longrightarrow> hex_char d \<in> set ''0123456789abcdef''"
proof -
  assume "d < 16"
  then have "d = 0 \<or> d = 1 \<or> d = 2 \<or> d = 3 \<or> d = 4 \<or> d = 5 \<or> d = 6 \<or> d = 7 \<or> d = 8 \<or> d = 9
      \<or> d = 10 \<or> d = 11 \<or> d = 12 \<or> d = 13 \<or> d = 14 \<or> d = 15"
    by arith
  then show ?thesis by (auto simp: hex_char_def)
qed

lemma pair_in_set: "x \<in> S \<Longrightarrow> y \<in> S \<Longrightarrow> length [x, y] = 2 \<and> set [x, y] \<subseteq> S"
  by simp

lemma two_hex_shape:
  assumes "0 \<le> n" and "n < 256"
  shows "length (two_hex n) = 2 \<and> set (two_hex n) \<subseteq> set ''0123456789abcdef''"
proof -
  from assms have "nat n div 16 < 16" and "nat n mod 16 < 16" by auto
  then have "hex_char (nat n div 16) \<in> set ''0123456789abcdef''"
    and "hex_char (nat n mod 16) \<in> set ''0123456789abcdef''"
    by (blast intro: hex_char_lower)+
  then show ?thesis unfolding two_hex_def by (rule pair_in_set)
qed

lemma seven_chars:
  "length s = 7 \<Longrightarrow> \<exists>c0 c1 c2 c3 c4 c5 c6. s = [c0, c1, c2, c3, c4, c5, c6]"
  by (auto simp: eval_nat_numeral length_Suc_conv)

lemma resolve_rgb_range:
  assumes "resolve_rgb h code = Inr (r, g, b)"
  shows "- 15 \<le> r \<and> r \<le> 255 \<and> - 15 \<le> g \<and> g \<le> 255 \<and> - 15 \<le> b \<and> b \<le> 255"
proof (cases "startswith_hash code")
  case False
  have w: "int (unat x div 256) \<le> 255" for x :: "16 word"
  proof -
    have "unat x < 2 ^ 16" using unsigned_less [of x] by simp
    then show ?thesis by simp
  qed
  from False assms show ?thesis
    using w by (auto simp: resolve_rgb_def split: option.splits)
next
  case True
  with assms have len: "length code = 7"
    by (auto simp: resolve_rgb_def split: if_splits)
  then obtain c0 c1 c2 c3 c4 c5 c6 where code: "code = [c0, c1, c2, c3, c4, c5, c6]"
    using seven_chars by blast
  from True assms have "py_int16 [c1, c2] = Some r" "py_int16 [c3, c4] = Some g" "py_int16 [c5, c6] = Some b"
    by (auto simp: resolve_rgb_def code py_slice_def split: option.splits)
  then show ?thesis using py_int16_two_chars by blast
qed

lemma hover_of_channels:
  assumes "resolve_rgb h (theme_color_code h s) = Inr (r, g, b)"
  shows "fst (get_hover_color h self s) =
           Inr (CHR ''#'' # two_hex (darken r) @ two_hex (darken g) @ two_hex (darken b))"
proof -
  from resolve_rgb_range [OF assms]
  have "0 \<le> darken r \<and> darken r < 256" "0 \<le> darken g \<and> darken g < 256" "0 \<le> darken b \<and> darken b < 256"
    using darken_bounds [of r] darken_bounds [of g] darken_bounds [of b] by auto
  then have "format_02x (darken r) = two_hex (darken r)" "format_02x (darken g) = two_hex (darken g)"
    "format_02x (darken b) = two_hex (darken b)"
    by (simp_all add: format_02x_two_hex)
  with assms show ?thesis by (simp add: get_hover_color_def)
qed



text \<open>
  A colour code that starts with \<^verbatim>\<open>#\<close> and is not resolved by the theme raises a
  \<^verbatim>\<open>ValueError\<close> when its length is not 7 or \<^verbatim>\<open>int(s, 16)\<close> rejects one of its three
  channel substrings.
\<close>

lemma hash_code_raises:
  assumes "theme_try h s = None" and "startswith_hash s"
    and "length s \<noteq> 7 \<or> py_int16 (py_slice 1 3 s) = None \<or>
         py_int16 (py_slice 3 5 s) = None \<or> py_int16 (py_slice 5 7 s) = None"
  shows "\<exists>msg. fst (get_hover_color h self s) = Inl (ValueError msg)"
  using assms
  by (auto simp: get_hover_color_def theme_color_code_def resolve_rgb_def split: option.splits)

text \<open>
  C3: a colour code of length 7 whose channel substrings are not two hexadecimal digits
  should raise a \<^verbatim>\<open>ValueError\<close>. The code leaves the check to \<^verbatim>\<open>int(s, 16)\<close>, which
  also reads a sign or white space next to one digit: \<^verbatim>\<open>"#+f-f f"\<close> is accepted and
  darkened to \<^verbatim>\<open>"#0c000c"\<close>.
\<close>

theorem malformed_hex_code_accepted:
  "theme_try demo_host ''#+f-f f'' = None \<and> startswith_hash ''#+f-f f'' \<and>
   hex_digit_val (CHR ''+'') = None \<and> hex_digit_val (CHR ''-'') = None \<and>
   hex_digit_val (CHR '' '') = None \<and>
   fst (get_hover_color demo_host () ''#+f-f f'') = Inr ''#0c000c''"
  by (simp add: get_hover_color_def demo_host_def theme_color_code_def theme_try_def
      resolve_rgb_def startswith_hash_def darken_def int_times_factor_def format_02x_def
      hex_digits.simps hex_char_def py_slice_def py_int16_def py_strip_def py_isspace_def
      parse_sign_def skip_hex_prefix_def parse_magnitude_def hex_digit_val_def)

text \<open>
  C4: a string that is no key of the theme table, does not start with \<^verbatim>\<open>#\<close> and is no
  colour name known to the toolkit makes \<^verbatim>\<open>_get_hover_color\<close> raise a \<^verbatim>\<open>ValueError\<close>.
\<close>

theorem unknown_name_raises:
  assumes "theme_fg_color h s = None" and "\<not> startswith_hash s" and "winfo_rgb h s = None"
  shows "fst (get_hover_color h self s) =
           Inl (ValueError (''Unknown or invalid color name: '' @ [CHR 0x27] @ s @ [CHR 0x27]))"
  using assms
  by (simp add: get_hover_color_def theme_color_code_def theme_try_def resolve_rgb_def)

theorem unknown_name_raises_witness:
  "theme_fg_color demo_host ''notacolor'' = None \<and> \<not> startswith_hash ''notacolor'' \<and>
   winfo_rgb demo_host ''notacolor'' = None \<and>
   fst (get_hover_color demo_host () ''notacolor'') =
     Inl (ValueError (''Unknown or invalid color name: '' @ [CHR 0x27] @ ''notacolor'' @ [CHR 0x27]))"
proof -
  have a: "theme_fg_color demo_host ''notacolor'' = None" by (simp add: demo_host_def)
  have b: "\<not> startswith_hash ''notacolor''" by (simp add: startswith_hash_def)
  have c: "winfo_rgb demo_host ''notacolor'' = None" by (simp add: demo_host_def)
  from unknown_name_raises [OF a b c, of "()"] a b c show ?thesis by simp
qed

text \<open>
  C8: \<^verbatim>\<open>_get_hover_color\<close> is deterministic and has no side effect. Two calls with the same
  argument, on any two widgets and under any two hosts that agree on the theme entry of the
  argument and on the toolkit's answer for the colour code, give the same result (the same
  string or the same error), and each call hands back the widget it was given.
\<close>

theorem get_hover_color_pure:
  assumes "theme_fg_color h1 s = theme_fg_color h2 s"
    and "winfo_rgb h1 (theme_color_code h1 s) = winfo_rgb h2 (theme_color_code h1 s)"
  shows "fst (get_hover_color h1 self1 s) = fst (get_hover_color h2 self2 s) \<and>
         snd (get_hover_color h1 self1 s) = self1 \<and> snd (get_hover_color h2 self2 s) = self2"
proof -
  from assms(1) have c: "theme_color_code h2 s = theme_color_code h1 s"
    by (simp add: theme_color_code_def theme_try_def)
  from assms(2) have "resolve_rgb h2 (theme_color_code h1 s) = resolve_rgb h1 (theme_color_code h1 s)"
    by (simp add: resolve_rgb_def)
  with c show ?thesis
    by (simp add: get_hover_color_def split: sum.splits prod.splits)
qed

theorem get_hover_color_pure_witness:
  "theme_fg_color demo_host ''red'' = theme_fg_color other_host ''red'' \<and>
   winfo_rgb demo_host (theme_color_code demo_host ''red'') =
     winfo_rgb other_host (theme_color_code demo_host ''red'') \<and>
   fst (get_hover_color demo_host (demo_widget ''green'') ''red'') =
     fst (get_hover_color other_host demo_enabled ''red'') \<and>
   snd (get_hover_color demo_host (demo_widget ''green'') ''red'') = demo_widget ''green'' \<and>
   snd (get_hover_color other_host demo_enabled ''red'') = demo_enabled"
proof -
  have a: "theme_fg_color demo_host ''red'' = theme_fg_color other_host ''red''"
    by (simp add: demo_host_def other_host_def)
  have b: "winfo_rgb demo_host (theme_color_code demo_host ''red'') =
     winfo_rgb other_host (theme_color_code demo_host ''red'')"
    by (simp add: demo_host_def other_host_def theme_color_code_def theme_try_def)
  from get_hover_color_pure [OF a b, of "demo_widget ''green''" demo_enabled] a b
  show ?thesis by simp
qed

text \<open>
  What holds of every result: it has 7 characters, \<^verbatim>\<open>#\<close> and six lowercase
  hexadecimal digits, which encode the three darkened channels; each is between 0 and 216,
  and is at most the resolved channel whenever that channel is not negative.
\<close>

lemma hover_color_shape:
  assumes "fst (get_hover_color h self s) = Inr out"
  shows "\<exists>r g b. resolve_rgb h (theme_color_code h s) = Inr (r, g, b) \<and>
           out = CHR ''#'' # two_hex (darken r) @ two_hex (darken g) @ two_hex (darken b) \<and>
           length out = 7 \<and> set (tl out) \<subseteq> set ''0123456789abcdef'' \<and>
           0 \<le> darken r \<and> darken r \<le> 216 \<and> (0 \<le> r \<longrightarrow> darken r \<le> r) \<and>
           0 \<le> darken g \<and> darken g \<le> 216 \<and> (0 \<le> g \<longrightarrow> darken g \<le> g) \<and>
           0 \<le> darken b \<and> darken b \<le> 216 \<and> (0 \<le> b \<longrightarrow> darken b \<le> b)"
proof -
  from assms obtain r g b where rgb: "resolve_rgb h (theme_color_code h s) = Inr (r, g, b)"
    by (auto simp: get_hover_color_def split: sum.splits)
  from hover_of_channels [OF rgb, of self] assms
  have out: "out = CHR ''#'' # two_hex (darken r) @ two_hex (darken g) @ two_hex (darken b)"
    by simp
  note rng = resolve_rgb_range [OF rgb]
  from rng have dr: "0 \<le> darken r \<and> darken r \<le> 216 \<and> (0 \<le> r \<longrightarrow> darken r \<le> r)"
    by (simp add: darken_bounds)
  from rng have dg: "0 \<le> darken g \<and> darken g \<le> 216 \<and> (0 \<le> g \<longrightarrow> darken g \<le> g)"
    by (simp add: darken_bounds)
  from rng have db: "0 \<le> darken b \<and> darken b \<le> 216 \<and> (0 \<le> b \<longrightarrow> darken b \<le> b)"
    by (simp add: darken_bounds)
  have sr: "length (two_hex (darken r)) = 2 \<and> set (two_hex (darken r)) \<subseteq> set ''0123456789abcdef''"
    using dr by (intro two_hex_shape) auto
  have sg: "length (two_hex (darken g)) = 2 \<and> set (two_hex (darken g)) \<subseteq> set ''0123456789abcdef''"
    using dg by (intro two_hex_shape) auto
  have sb: "length (two_hex (darken b)) = 2 \<and> set (two_hex (darken b)) \<subseteq> set ''0123456789abcdef''"
    using db by (intro two_hex_shape) auto
  have len: "length out = 7" using sr sg sb by (simp add: out)
  have chars: "set (tl out) \<subseteq> set ''0123456789abcdef''"
    using sr sg sb unfolding out list.sel set_append by blast
  from rgb out len chars dr dg db show ?thesis by blast
qed

text \<open>
  C9: a result should never be brighter than the colour it was computed from. The code
  reads the channel \<^verbatim>\<open>-f\<close> as \<open>- 15\<close> where it should reject it: \<^verbatim>\<open>"#-f0000"\<close> resolves
  to the red channel \<open>- 15\<close>, and the result \<^verbatim>\<open>"#000000"\<close> has the red channel 0.
\<close>

theorem negative_channel_brighter:
  "fst (get_hover_color demo_host () ''#-f0000'') = Inr ''#000000'' \<and>
   resolve_rgb demo_host (theme_color_code demo_host ''#-f0000'') = Inr (- 15, 0, 0) \<and>
   \<not> darken (- 15) \<le> - 15"
  by (simp add: get_hover_color_def demo_host_def theme_color_code_def theme_try_def
      resolve_rgb_def startswith_hash_def darken_def int_times_factor_def format_02x_def
      hex_digits.simps hex_char_def py_slice_def py_int16_def py_strip_def py_isspace_def
      parse_sign_def skip_hex_prefix_def parse_magnitude_def hex_digit_val_def)

section \<open>Properties of the widget\<close>

lemma get_hover_color_eq:
  "fst (get_hover_color h () s) = r \<Longrightarrow> get_hover_color h self s = (r, self)"
  using get_hover_color_self [of h self s] by simp

lemma toggle_enable_ok:
  assumes "\<not> can_edit w" and "fst (get_hover_color h () (edit_enabled_color w)) = Inr c"
  shows "toggle_edit_mode h w =
    (None, w\<lparr>can_edit := True, Entry_state := Normal,
              EditButton := (EditButton w)\<lparr>fg_color := edit_enabled_color w, hover_color := c,
                                          button_text := edit_enabled_text w\<rparr>,
              effects := effects w @ [Entry_focus_set, Entry_select_range (Index 0) End_index] @
                (case on_enable_edit_command w of None \<Rightarrow> [] | Some f \<Rightarrow> [Command f])\<rparr>)"
  using assms(1)
  by (simp add: toggle_edit_mode_def get_hover_color_eq [OF assms(2)] split: option.splits)

lemma toggle_enable_fail:
  assumes "\<not> can_edit w" and "fst (get_hover_color h () (edit_enabled_color w)) = Inl e"
  shows "toggle_edit_mode h w = (Some e, w\<lparr>can_edit := True, Entry_state := Normal\<rparr>)"
  using assms(1)
  by (simp add: toggle_edit_mode_def get_hover_color_eq [OF assms(2)])

lemma toggle_disable_ok:
  assumes "can_edit w" and "fst (get_hover_color h () (edit_disabled_color w)) = Inr c"
  shows "toggle_edit_mode h w =
    (None, w\<lparr>can_edit := False, Entry_state := Disabled,
              EditButton := (EditButton w)\<lparr>fg_color := edit_disabled_color w, hover_color := c,
                                          button_text := edit_disabled_text w\<rparr>,
              effects := effects w @
                (case on_disable_edit_command w of None \<Rightarrow> [] | Some f \<Rightarrow> [Command f])\<rparr>)"
  using assms(1)
  by (simp add: toggle_edit_mode_def get_hover_color_eq [OF assms(2)] split: option.splits)

lemma toggle_disable_fail:
  assumes "can_edit w" and "fst (get_hover_color h () (edit_disabled_color w)) = Inl e"
  shows "toggle_edit_mode h w = (Some e, w\<lparr>can_edit := False, Entry_state := Disabled\<rparr>)"
  using assms(1)
  by (simp add: toggle_edit_mode_def get_hover_color_eq [OF assms(2)])

lemma init_Inr:
  assumes "init h dt et dc ec mc ond one = Inr w"
  shows "\<exists>c. fst (get_hover_color h () dc) = Inr c \<and>
     w = \<lparr>can_edit = False, edit_disabled_text = dt, edit_enabled_text = et,
          edit_disabled_color = dc, edit_enabled_color = ec,
          on_disable_edit_command = ond, on_enable_edit_command = one,
          max_characters = mc, entry_var = [], entry_var_traced = (mc \<noteq> None),
          widget_height = 28, Entry_state = Disabled,
          EditButton = \<lparr>fg_color = dc, hover_color = c, button_text = dt\<rparr>,
          effects = []\<rparr>"
proof (cases "fst (get_hover_color h () dc)")
  case (Inl e)
  from assms show ?thesis
    by (simp add: init_def get_hover_color_eq [OF Inl])
next
  case (Inr c)
  from assms show ?thesis
    by (auto simp add: init_def get_hover_color_eq [OF Inr] Inr)
qed

lemma init_coherent:
  assumes "init h dt et dc ec mc ond one = Inr w"
  shows "coherent h w"
proof -
  from init_Inr [OF assms] obtain c where "fst (get_hover_color h () dc) = Inr c"
    and "w = \<lparr>can_edit = False, edit_disabled_text = dt, edit_enabled_text = et,
          edit_disabled_color = dc, edit_enabled_color = ec,
          on_disable_edit_command = ond, on_enable_edit_command = one,
          max_characters = mc, entry_var = [], entry_var_traced = (mc \<noteq> None),
          widget_height = 28, Entry_state = Disabled,
          EditButton = \<lparr>fg_color = dc, hover_color = c, button_text = dt\<rparr>,
          effects = []\<rparr>"
    by blast
  then show ?thesis by (simp add: coherent_def disabled_look_def)
qed

lemma toggle_coherent:
  assumes "coherent h w"
  shows "coherent h (snd (toggle_edit_mode h w))"
proof -
  from assms obtain cd where cd: "fst (get_hover_color h () (edit_disabled_color w)) = Inr cd"
    and st: "Entry_state w = (if can_edit w then Normal else Disabled)"
    and bt: "EditButton w =
          (if can_edit w then
             (case fst (get_hover_color h () (edit_enabled_color w)) of
                Inr ce \<Rightarrow> enabled_look w ce
              | Inl _ \<Rightarrow> disabled_look w cd)
           else disabled_look w cd)"
    unfolding coherent_def by blast
  show ?thesis
  proof (cases "can_edit w")
    case True
    show ?thesis
      by (simp add: toggle_disable_ok [OF True cd] coherent_def cd disabled_look_def)
  next
    case False
    show ?thesis
    proof (cases "fst (get_hover_color h () (edit_enabled_color w))")
      case (Inl e)
      from False bt show ?thesis
        by (simp add: toggle_enable_fail [OF False Inl] coherent_def cd Inl disabled_look_def)
    next
      case (Inr ce)
      show ?thesis
        by (simp add: toggle_enable_ok [OF False Inr] coherent_def cd Inr enabled_look_def)
    qed
  qed
qed

lemma entry_var_set_eq:
  "entry_var_set s w =
     w\<lparr>entry_var :=
          (case max_characters w of
             Some m \<Rightarrow> if entry_var_traced w \<and> m \<le> int (length s) then py_slice_to m s else s
           | None \<Rightarrow> s)\<rparr>"
  by (simp add: entry_var_set_def limit_characters_def Let_def split: option.splits)

lemma coherent_entry_var: "coherent h (w\<lparr>entry_var := t\<rparr>) = coherent h w"
  by (simp add: coherent_def disabled_look_def enabled_look_def cong: sum.case_cong)

lemma write_coherent: "coherent h w \<Longrightarrow> coherent h (entry_var_set s w)"
  by (simp only: entry_var_set_eq coherent_entry_var)

lemma step_coherent: "coherent h w \<Longrightarrow> coherent h (step h w a)"
  by (cases a) (simp_all add: toggle_coherent write_coherent)

lemma run_coherent: "coherent h w \<Longrightarrow> coherent h (run h w acts)"
  by (induction acts arbitrary: w) (simp_all add: step_coherent)

lemma toggle_twice_coherent:
  assumes "coherent h w"
  shows "can_edit (snd (toggle_edit_mode h (snd (toggle_edit_mode h w)))) = can_edit w \<and>
         Entry_state (snd (toggle_edit_mode h (snd (toggle_edit_mode h w)))) = Entry_state w \<and>
         EditButton (snd (toggle_edit_mode h (snd (toggle_edit_mode h w)))) = EditButton w"
proof -
  from assms obtain cd where cd: "fst (get_hover_color h () (edit_disabled_color w)) = Inr cd"
    and st: "Entry_state w = (if can_edit w then Normal else Disabled)"
    and bt: "EditButton w =
          (if can_edit w then
             (case fst (get_hover_color h () (edit_enabled_color w)) of
                Inr ce \<Rightarrow> enabled_look w ce
              | Inl _ \<Rightarrow> disabled_look w cd)
           else disabled_look w cd)"
    unfolding coherent_def by blast
  let ?w1 = "snd (toggle_edit_mode h w)"
  show ?thesis
  proof (cases "fst (get_hover_color h () (edit_enabled_color w))")
    case (Inl e)
    show ?thesis
    proof (cases "can_edit w")
      case True
      have w1: "?w1 = w\<lparr>can_edit := False, Entry_state := Disabled,
              EditButton := (EditButton w)\<lparr>fg_color := edit_disabled_color w, hover_color := cd,
                                          button_text := edit_disabled_text w\<rparr>,
              effects := effects w @
                (case on_disable_edit_command w of None \<Rightarrow> [] | Some f \<Rightarrow> [Command f])\<rparr>"
        by (simp add: toggle_disable_ok [OF True cd])
      have n: "\<not> can_edit ?w1" and e1: "fst (get_hover_color h () (edit_enabled_color ?w1)) = Inl e"
        by (simp_all add: w1 Inl)
      from True st bt show ?thesis
        by (simp add: toggle_enable_fail [OF n e1] Inl) (simp add: w1 disabled_look_def)
    next
      case False
      have w1: "?w1 = w\<lparr>can_edit := True, Entry_state := Normal\<rparr>"
        by (simp add: toggle_enable_fail [OF False Inl])
      have y: "can_edit ?w1" and d1: "fst (get_hover_color h () (edit_disabled_color ?w1)) = Inr cd"
        by (simp_all add: w1 cd)
      from False st bt show ?thesis
        by (simp add: toggle_disable_ok [OF y d1]) (simp add: w1 disabled_look_def)
    qed
  next
    case (Inr ce)
    show ?thesis
    proof (cases "can_edit w")
      case True
      have w1: "?w1 = w\<lparr>can_edit := False, Entry_state := Disabled,
              EditButton := (EditButton w)\<lparr>fg_color := edit_disabled_color w, hover_color := cd,
                                          button_text := edit_disabled_text w\<rparr>,
              effects := effects w @
                (case on_disable_edit_command w of None \<Rightarrow> [] | Some f \<Rightarrow> [Command f])\<rparr>"
        by (simp add: toggle_disable_ok [OF True cd])
      have n: "\<not> can_edit ?w1" and e1: "fst (get_hover_color h () (edit_enabled_color ?w1)) = Inr ce"
        by (simp_all add: w1 Inr)
      from True st bt show ?thesis
        by (simp add: toggle_enable_ok [OF n e1] Inr) (simp add: w1 enabled_look_def)
    next
      case False
      have w1: "?w1 = w\<lparr>can_edit := True, Entry_state := Normal,
              EditButton := (EditButton w)\<lparr>fg_color := edit_enabled_color w, hover_color := ce,
                                          button_text := edit_enabled_text w\<rparr>,
              effects := effects w @ [Entry_focus_set, Entry_select_range (Index 0) End_index] @
                (case on_enable_edit_command w of None \<Rightarrow> [] | Some f \<Rightarrow> [Command f])\<rparr>"
        by (simp add: toggle_enable_ok [OF False Inr])
      have y: "can_edit ?w1" and d1: "fst (get_hover_color h () (edit_disabled_color ?w1)) = Inr cd"
        by (simp_all add: w1 cd)
      from False st bt show ?thesis
        by (simp add: toggle_disable_ok [OF y d1]) (simp add: w1 disabled_look_def)
    qed
  qed
qed

lemma toggle_fields:
  "edit_disabled_text (snd (toggle_edit_mode h w)) = edit_disabled_text w \<and>
   edit_enabled_text (snd (toggle_edit_mode h w)) = edit_enabled_text w \<and>
   edit_disabled_color (snd (toggle_edit_mode h w)) = edit_disabled_color w \<and>
   edit_enabled_color (snd (toggle_edit_mode h w)) = edit_enabled_color w \<and>
   max_characters (snd (toggle_edit_mode h w)) = max_characters w \<and>
   entry_var_traced (snd (toggle_edit_mode h w)) = entry_var_traced w \<and>
   entry_var (snd (toggle_edit_mode h w)) = entry_var w"
proof (cases "can_edit w")
  case True
  show ?thesis
  proof (cases "fst (get_hover_color h () (edit_disabled_color w))")
    case (Inl e)
    show ?thesis by (simp add: toggle_disable_fail [OF True Inl])
  next
    case (Inr c)
    show ?thesis by (simp add: toggle_disable_ok [OF True Inr])
  qed
next
  case False
  show ?thesis
  proof (cases "fst (get_hover_color h () (edit_enabled_color w))")
    case (Inl e)
    show ?thesis by (simp add: toggle_enable_fail [OF False Inl])
  next
    case (Inr c)
    show ?thesis by (simp add: toggle_enable_ok [OF False Inr])
  qed
qed

lemma step_enabled_color: "edit_enabled_color (step h w a) = edit_enabled_color w"
  by (cases a) (simp_all add: toggle_fields entry_var_set_eq)

lemma run_enabled_color: "edit_enabled_color (run h w acts) = edit_enabled_color w"
  by (induction acts arbitrary: w) (simp_all add: step_enabled_color)

lemma run_append: "run h w (xs @ ys) = run h (run h w xs) ys"
  by (induction xs arbitrary: w) simp_all

lemma coherent_two_states:
  assumes "coherent h w" and "fst (get_hover_color h () (edit_enabled_color w)) = Inr c"
  shows "is_DISABLED w \<or> is_ENABLED w"
  using assms
  by (auto simp: coherent_def is_DISABLED_def is_ENABLED_def disabled_look_def enabled_look_def
      split: if_splits)

lemma init_demo:
  "init demo_host ''A'' ''M'' ''red'' ec (Some 8) (Some ()) (Some ()) = Inr (demo_widget ec)"
  by (simp add: init_def demo_widget_def get_hover_color_def demo_host_def theme_color_code_def
      theme_try_def resolve_rgb_def startswith_hash_def darken_def int_times_factor_def
      format_02x_def hex_digits.simps hex_char_def)

lemma demo_green: "fst (get_hover_color demo_host () ''green'') = Inr ''#006c00''"
  by (simp add: get_hover_color_def demo_host_def theme_color_code_def
      theme_try_def resolve_rgb_def startswith_hash_def darken_def int_times_factor_def
      format_02x_def hex_digits.simps hex_char_def)

lemma demo_red: "fst (get_hover_color demo_host () ''red'') = Inr ''#d80000''"
  by (simp add: get_hover_color_def demo_host_def theme_color_code_def
      theme_try_def resolve_rgb_def startswith_hash_def darken_def int_times_factor_def
      format_02x_def hex_digits.simps hex_char_def)

lemma demo_short_code:
  "fst (get_hover_color demo_host () ''#0f0'') =
     Inl (ValueError (''Color code must be in format '' @ [CHR 0x27] @ ''#RRGGBB'' @ [CHR 0x27] @ ''.''))"
  by (simp add: get_hover_color_def demo_host_def theme_color_code_def
      theme_try_def resolve_rgb_def startswith_hash_def)

lemma write_limited:
  assumes "max_characters w = Some m" and "entry_var_traced w" and "0 < m"
  shows "entry_var (entry_var_set s w) = (if m \<le> int (length s) then take (nat m) s else s)"
    and "limited m (entry_var_set s w)"
  using assms by (auto simp: entry_var_set_eq py_slice_to_def limited_def)

lemma step_limited: "0 < m \<Longrightarrow> limited m w \<Longrightarrow> limited m (step h w a)"
proof (cases a)
  case Toggle
  assume "limited m w"
  then show ?thesis by (simp add: Toggle limited_def toggle_fields)
next
  case (Write s)
  assume "0 < m" "limited m w"
  then have "limited m (entry_var_set s w)"
    by (intro write_limited(2)) (simp_all add: limited_def)
  then show ?thesis by (simp add: Write)
qed

lemma run_limited: "0 < m \<Longrightarrow> limited m w \<Longrightarrow> limited m (run h w acts)"
  by (induction acts arbitrary: w) (simp_all add: step_limited)

text \<open>
  C2: with a positive maximum \<open>m\<close> given at construction, the text has at most \<open>m\<close>
  characters after any sequence of toggles and writes, and a write of \<open>m\<close> or more
  characters stores the first \<open>m\<close> of them.
\<close>

theorem text_length_bounded:
  assumes "init h dt et dc ec (Some m) ond one = Inr w0" and "0 < m"
  shows "int (length (entry_var (run h w0 acts))) \<le> m \<and>
         entry_var (run h w0 (acts @ [Write s])) =
           (if m \<le> int (length s) then take (nat m) s else s)"
proof -
  from init_Inr [OF assms(1)] assms(2) have "limited m w0"
    by (auto simp: limited_def)
  then have l: "limited m (run h w0 acts)"
    using assms(2) by (simp add: run_limited)
  then have "entry_var (entry_var_set s (run h w0 acts)) =
      (if m \<le> int (length s) then take (nat m) s else s)"
    using assms(2) by (intro write_limited(1)) (simp_all add: limited_def)
  with l show ?thesis by (simp add: run_append limited_def)
qed

theorem text_length_bounded_witness:
  "init demo_host ''A'' ''M'' ''red'' ''green'' (Some 8) (Some ()) (Some ()) = Inr (demo_widget ''green'') \<and>
   (0::int) < 8 \<and>
   int (length (entry_var (run demo_host (demo_widget ''green'') [Toggle, Write ''0123456789'']))) \<le> 8 \<and>
   entry_var (run demo_host (demo_widget ''green'') ([Toggle] @ [Write ''0123456789''])) = ''01234567''"
proof -
  have p: "(0::int) < 8" by simp
  from text_length_bounded [OF init_demo [of "''green''"] p, where acts = "[Toggle, Write ''0123456789'']" and s = "[]"]
    text_length_bounded [OF init_demo [of "''green''"] p, where acts = "[Toggle]" and s = "''0123456789''"]
    init_demo [of "''green''"]
  show ?thesis by simp
qed

text \<open>
  C5: in every state that a constructed widget reaches, toggling twice gives back the same
  \<open>can_edit\<close>, the same label and the same colour of the button (and the same hover colour
  and entry state). A toggle that raises counts with the state it leaves.
\<close>

theorem toggle_twice_restores:
  assumes "init h dt et dc ec mc ond one = Inr w0"
  shows "can_edit (run h w0 (acts @ [Toggle, Toggle])) = can_edit (run h w0 acts) \<and>
         button_text (EditButton (run h w0 (acts @ [Toggle, Toggle]))) =
           button_text (EditButton (run h w0 acts)) \<and>
         fg_color (EditButton (run h w0 (acts @ [Toggle, Toggle]))) =
           fg_color (EditButton (run h w0 acts)) \<and>
         hover_color (EditButton (run h w0 (acts @ [Toggle, Toggle]))) =
           hover_color (EditButton (run h w0 acts)) \<and>
         Entry_state (run h w0 (acts @ [Toggle, Toggle])) = Entry_state (run h w0 acts)"
proof -
  have "coherent h (run h w0 acts)"
    using init_coherent [OF assms] by (rule run_coherent)
  from toggle_twice_coherent [OF this] show ?thesis
    by (simp add: run_append)
qed

theorem toggle_twice_restores_witness:
  "init demo_host ''A'' ''M'' ''red'' ''green'' (Some 8) (Some ()) (Some ()) = Inr (demo_widget ''green'') \<and>
   can_edit (run demo_host (demo_widget ''green'') [Toggle]) \<and>
   can_edit (run demo_host (demo_widget ''green'') ([Toggle] @ [Toggle, Toggle])) \<and>
   button_text (EditButton (run demo_host (demo_widget ''green'') ([Toggle] @ [Toggle, Toggle]))) = ''M'' \<and>
   fg_color (EditButton (run demo_host (demo_widget ''green'') ([Toggle] @ [Toggle, Toggle]))) = ''green''"
proof -
  have n: "\<not> can_edit (demo_widget ''green'')"
    and g: "fst (get_hover_color demo_host () (edit_enabled_color (demo_widget ''green''))) = Inr ''#006c00''"
    by (simp_all add: demo_widget_def demo_green)
  have "run demo_host (demo_widget ''green'') [Toggle] = snd (toggle_edit_mode demo_host (demo_widget ''green''))"
    by simp
  then have "can_edit (run demo_host (demo_widget ''green'') [Toggle]) \<and>
     button_text (EditButton (run demo_host (demo_widget ''green'') [Toggle])) = ''M'' \<and>
     fg_color (EditButton (run demo_host (demo_widget ''green'') [Toggle])) = ''green''"
    by (simp add: toggle_enable_ok [OF n g]) (simp add: demo_widget_def)
  with toggle_twice_restores [OF init_demo [of "''green''"], where acts = "[Toggle]"]
    init_demo [of "''green''"]
  show ?thesis by simp
qed

text \<open>
  C6, as amended: when the colour to be applied has a hover colour, \<^verbatim>\<open>toggle_edit_mode\<close>
  goes from disabled to enabled (the entry writable, focus and selection of the whole text,
  the enabled colour and label, then the on-enable callback if there is one) and from
  enabled to disabled (the entry read-only, the disabled colour and label, then the
  on-disable callback if there is one); and a constructed widget whose enabled colour has a
  hover colour is always in one of the two states.
\<close>

theorem toggle_two_state_machine:
  "(\<not> can_edit w \<and> fst (get_hover_color h () (edit_enabled_color w)) = Inr ce \<longrightarrow>
      toggle_edit_mode h w =
        (None, w\<lparr>can_edit := True, Entry_state := Normal,
                  EditButton := (EditButton w)\<lparr>fg_color := edit_enabled_color w,
                                              hover_color := ce,
                                              button_text := edit_enabled_text w\<rparr>,
                  effects := effects w @
                    [Entry_focus_set, Entry_select_range (Index 0) End_index] @
                    (case on_enable_edit_command w of None \<Rightarrow> [] | Some f \<Rightarrow> [Command f])\<rparr>)) \<and>
   (can_edit w \<and> fst (get_hover_color h () (edit_disabled_color w)) = Inr cd \<longrightarrow>
      toggle_edit_mode h w =
        (None, w\<lparr>can_edit := False, Entry_state := Disabled,
                  EditButton := (EditButton w)\<lparr>fg_color := edit_disabled_color w,
                                              hover_color := cd,
                                              button_text := edit_disabled_text w\<rparr>,
                  effects := effects w @
                    (case on_disable_edit_command w of None \<Rightarrow> [] | Some f \<Rightarrow> [Command f])\<rparr>)) \<and>
   (init h dt et dc ec mc ond one = Inr w0 \<and> fst (get_hover_color h () ec) = Inr c \<longrightarrow>
      is_DISABLED (run h w0 acts) \<or> is_ENABLED (run h w0 acts))"
proof (intro conjI impI)
  assume "\<not> can_edit w \<and> fst (get_hover_color h () (edit_enabled_color w)) = Inr ce"
  then show "toggle_edit_mode h w =
        (None, w\<lparr>can_edit := True, Entry_state := Normal,
                  EditButton := (EditButton w)\<lparr>fg_color := edit_enabled_color w,
                                              hover_color := ce,
                                              button_text := edit_enabled_text w\<rparr>,
                  effects := effects w @
                    [Entry_focus_set, Entry_select_range (Index 0) End_index] @
                    (case on_enable_edit_command w of None \<Rightarrow> [] | Some f \<Rightarrow> [Command f])\<rparr>)"
    by (simp add: toggle_enable_ok)
next
  assume "can_edit w \<and> fst (get_hover_color h () (edit_disabled_color w)) = Inr cd"
  then show "toggle_edit_mode h w =
        (None, w\<lparr>can_edit := False, Entry_state := Disabled,
                  EditButton := (EditButton w)\<lparr>fg_color := edit_disabled_color w,
                                              hover_color := cd,
                                              button_text := edit_disabled_text w\<rparr>,
                  effects := effects w @
                    (case on_disable_edit_command w of None \<Rightarrow> [] | Some f \<Rightarrow> [Command f])\<rparr>)"
    by (simp add: toggle_disable_ok)
next
  assume a: "init h dt et dc ec mc ond one = Inr w0 \<and> fst (get_hover_color h () ec) = Inr c"
  then have "edit_enabled_color w0 = ec"
    using init_Inr [of h dt et dc ec mc ond one w0] by auto
  then have e: "fst (get_hover_color h () (edit_enabled_color (run h w0 acts))) = Inr c"
    using a by (simp add: run_enabled_color)
  have "coherent h (run h w0 acts)"
    using a init_coherent [of h dt et dc ec mc ond one w0] by (simp add: run_coherent)
  then show "is_DISABLED (run h w0 acts) \<or> is_ENABLED (run h w0 acts)"
    using e by (rule coherent_two_states)
qed

theorem toggle_two_state_machine_witness:
  "\<not> can_edit (demo_widget ''green'') \<and>
   fst (get_hover_color demo_host () (edit_enabled_color (demo_widget ''green''))) = Inr ''#006c00'' \<and>
   toggle_edit_mode demo_host (demo_widget ''green'') = (None, demo_enabled) \<and>
   is_ENABLED demo_enabled \<and>
   effects demo_enabled = [Entry_focus_set, Entry_select_range (Index 0) End_index, Command ()] \<and>
   can_edit demo_enabled \<and>
   fst (get_hover_color demo_host () (edit_disabled_color demo_enabled)) = Inr ''#d80000'' \<and>
   fst (toggle_edit_mode demo_host demo_enabled) = None \<and>
   is_DISABLED (snd (toggle_edit_mode demo_host demo_enabled)) \<and>
   effects (snd (toggle_edit_mode demo_host demo_enabled)) =
     [Entry_focus_set, Entry_select_range (Index 0) End_index, Command (), Command ()] \<and>
   init demo_host ''A'' ''M'' ''red'' ''green'' (Some 8) (Some ()) (Some ()) =
     Inr (demo_widget ''green'') \<and>
   (is_DISABLED (run demo_host (demo_widget ''green'') [Toggle, Write ''abc'', Toggle]) \<or>
    is_ENABLED (run demo_host (demo_widget ''green'') [Toggle, Write ''abc'', Toggle]))"
proof -
  have n: "\<not> can_edit (demo_widget ''green'')"
    and g: "fst (get_hover_color demo_host () (edit_enabled_color (demo_widget ''green''))) =
      Inr ''#006c00''"
    and y: "can_edit demo_enabled"
    and r: "fst (get_hover_color demo_host () (edit_disabled_color demo_enabled)) = Inr ''#d80000''"
    by (simp_all add: demo_widget_def demo_enabled_def demo_green demo_red)
  have i: "init demo_host ''A'' ''M'' ''red'' ''green'' (Some 8) (Some ()) (Some ()) =
     Inr (demo_widget ''green'')"
    by (rule init_demo)
  have "toggle_edit_mode demo_host (demo_widget ''green'') =
      (None, (demo_widget ''green'')\<lparr>can_edit := True, Entry_state := Normal,
                  EditButton := (EditButton (demo_widget ''green''))
                     \<lparr>fg_color := edit_enabled_color (demo_widget ''green''),
                      hover_color := ''#006c00'',
                      button_text := edit_enabled_text (demo_widget ''green'')\<rparr>,
                  effects := effects (demo_widget ''green'') @
                    [Entry_focus_set, Entry_select_range (Index 0) End_index] @
                    (case on_enable_edit_command (demo_widget ''green'') of
                       None \<Rightarrow> [] | Some f \<Rightarrow> [Command f])\<rparr>)"
    using toggle_two_state_machine [where w = "demo_widget ''green''" and h = demo_host
        and ce = "''#006c00''"] n g by blast
  then have 1: "toggle_edit_mode demo_host (demo_widget ''green'') = (None, demo_enabled)"
    by (simp add: demo_widget_def demo_enabled_def)
  have 2: "toggle_edit_mode demo_host demo_enabled =
      (None, demo_enabled\<lparr>can_edit := False, Entry_state := Disabled,
                  EditButton := (EditButton demo_enabled)
                     \<lparr>fg_color := edit_disabled_color demo_enabled,
                      hover_color := ''#d80000'',
                      button_text := edit_disabled_text demo_enabled\<rparr>,
                  effects := effects demo_enabled @
                    (case on_disable_edit_command demo_enabled of
                       None \<Rightarrow> [] | Some f \<Rightarrow> [Command f])\<rparr>)"
    using toggle_two_state_machine [where w = demo_enabled and h = demo_host
        and cd = "''#d80000''"] y r by blast
  have 3: "is_DISABLED (run demo_host (demo_widget ''green'') [Toggle, Write ''abc'', Toggle]) \<or>
    is_ENABLED (run demo_host (demo_widget ''green'') [Toggle, Write ''abc'', Toggle])"
    using toggle_two_state_machine [where h = demo_host and ?w0.0 = "demo_widget ''green''"
        and ec = "''green''" and c = "''#006c00''" and dt = "''A''" and et = "''M''"
        and dc = "''red''" and mc = "Some 8" and ond = "Some ()" and one = "Some ()"
        and acts = "[Toggle, Write ''abc'', Toggle]"] i demo_green by blast
  have a: "is_ENABLED demo_enabled"
    "effects demo_enabled = [Entry_focus_set, Entry_select_range (Index 0) End_index, Command ()]"
    by (simp_all add: is_ENABLED_def demo_enabled_def)
  have b: "fst (toggle_edit_mode demo_host demo_enabled) = None"
    "is_DISABLED (snd (toggle_edit_mode demo_host demo_enabled))"
    "effects (snd (toggle_edit_mode demo_host demo_enabled)) =
     [Entry_focus_set, Entry_select_range (Index 0) End_index, Command (), Command ()]"
    unfolding 2 by (simp_all add: is_DISABLED_def demo_enabled_def)
  from n g y r i 1 3 a b show ?thesis by blast
qed

text \<open>
  C6 as stated fails for an enabled colour without a hover colour, such as the short code
  \<^verbatim>\<open>"#0f0"\<close>: construction succeeds, and the first toggle raises after setting \<open>can_edit\<close>
  and making the entry writable. The button keeps the disabled look, nothing is selected,
  the callback is not called, and the widget is in neither state.
\<close>

theorem toggle_unresolved_color:
  "init demo_host ''A'' ''M'' ''red'' ''#0f0'' (Some 8) (Some ()) (Some ()) =
     Inr (demo_widget ''#0f0'') \<and>
   is_DISABLED (demo_widget ''#0f0'') \<and>
   on_enable_edit_command (demo_widget ''#0f0'') = Some () \<and>
   toggle_edit_mode demo_host (demo_widget ''#0f0'') =
     (Some (ValueError (''Color code must be in format '' @ [CHR 0x27] @ ''#RRGGBB'' @ [CHR 0x27] @ ''.'')),
      (demo_widget ''#0f0'')\<lparr>can_edit := True, Entry_state := Normal\<rparr>) \<and>
   effects ((demo_widget ''#0f0'')\<lparr>can_edit := True, Entry_state := Normal\<rparr>) = [] \<and>
   \<not> is_DISABLED ((demo_widget ''#0f0'')\<lparr>can_edit := True, Entry_state := Normal\<rparr>) \<and>
   \<not> is_ENABLED ((demo_widget ''#0f0'')\<lparr>can_edit := True, Entry_state := Normal\<rparr>)"
proof -
  have n: "\<not> can_edit (demo_widget ''#0f0'')" by (simp add: demo_widget_def)
  have e: "fst (get_hover_color demo_host () (edit_enabled_color (demo_widget ''#0f0''))) =
     Inl (ValueError (''Color code must be in format '' @ [CHR 0x27] @ ''#RRGGBB'' @ [CHR 0x27] @ ''.''))"
    using demo_short_code by (simp add: demo_widget_def)
  show ?thesis
    by (simp add: init_demo toggle_enable_fail [OF n e])
       (simp add: demo_widget_def is_DISABLED_def is_ENABLED_def)
qed

text \<open>
  C7: a widget that has been constructed starts with \<open>can_edit\<close> false, the entry
  read-only, and the button showing the disabled label and the disabled colour.
\<close>

theorem init_state_disabled:
  assumes "init h dt et dc ec mc ond one = Inr w"
  shows "\<not> can_edit w \<and> Entry_state w = Disabled \<and>
         button_text (EditButton w) = dt \<and> fg_color (EditButton w) = dc"
  using init_Inr [OF assms] by auto

theorem init_state_disabled_witness:
  "init demo_host ''A'' ''M'' ''red'' ''green'' (Some 8) (Some ()) (Some ()) = Inr (demo_widget ''green'') \<and>
   \<not> can_edit (demo_widget ''green'') \<and> Entry_state (demo_widget ''green'') = Disabled \<and>
   button_text (EditButton (demo_widget ''green'')) = ''A'' \<and>
   fg_color (EditButton (demo_widget ''green'')) = ''red''"
  using init_state_disabled [OF init_demo [of "''green''"]] init_demo [of "''green''"] by simp

text \<open>C10: \<^verbatim>\<open>toggle_edit_mode\<close> leaves the text as it is, whether it raises or not.\<close>

theorem toggle_keeps_text: "entry_var (snd (toggle_edit_mode h w)) = entry_var w"
proof (cases "can_edit w")
  case True
  show ?thesis
  proof (cases "fst (get_hover_color h () (edit_disabled_color w))")
    case (Inl e)
    show ?thesis by (simp add: toggle_disable_fail [OF True Inl])
  next
    case (Inr c)
    show ?thesis by (simp add: toggle_disable_ok [OF True Inr])
  qed
next
  case False
  show ?thesis
  proof (cases "fst (get_hover_color h () (edit_enabled_color w))")
    case (Inl e)
    show ?thesis by (simp add: toggle_enable_fail [OF False Inl])
  next
    case (Inr c)
    show ?thesis by (simp add: toggle_enable_ok [OF False Inr])
  qed
qed

end
